theory Spec2Isabelle
  imports Complex_Main "HOL-Library.Multiset"
begin

section \<open>Preprocessing of circular-crown X-ray events\<close>

text \<open>
  A shallow embedding of \<^verbatim>\<open>src/xrayreco/preprocessing.py\<close>: the function
  \<^verbatim>\<open>circular_crown_logical_coordinates\<close> and the methods
  \<^verbatim>\<open>input_events_data\<close> and \<^verbatim>\<open>target_data\<close> of the class
  \<^verbatim>\<open>Xraydata\<close>.

  Python integers are \<open>int\<close>. NumPy's float64 values are idealised as \<open>real\<close>:
  rounding, infinities and NaN are not modelled. A NumPy array of one dimension is a
  list; an exception is a value of the type \<open>error\<close>, returned as \<open>Inl\<close>.
\<close>

subsection \<open>The services the module is handed\<close>

text \<open>
  The hexagonal grid (\<^verbatim>\<open>hexsample.hexagon.HexagonalGrid\<close>) and the input file
  (\<^verbatim>\<open>hexsample.fileio.DigiInputFileCircular\<close>) belong to another package. They are
  parameters of the model: a record holds the three methods of the grid that the
  module calls, each a pure function. \<open>neighbors\<close> is a generator in the source, so
  its result is the list of the pairs it yields, in the order it yields them.
  \<open>pixel_to_world\<close> acts elementwise on arrays; the record holds its action on one
  pixel and \<open>pixel_to_world_arrays\<close> below is the call on two arrays.
\<close>

type_synonym logical = "int \<times> int"

record grid =
  neighbors :: "int \<Rightarrow> int \<Rightarrow> logical list"
  adc_channel :: "int \<Rightarrow> int \<Rightarrow> int"
  pixel_to_world :: "int \<Rightarrow> int \<Rightarrow> real \<times> real"

text \<open>
  An event of the file: the logical coordinates of its central pixel and the array
  \<open>pha\<close> of its signals, indexed by acquisition channel.
\<close>

record event =
  column :: int
  row :: int
  pha :: "int list"

text \<open>
  The input file: the events that an iteration over it yields, in order; the
  exception, if any, that the iteration raises after the last of them; and the
  accessor \<^verbatim>\<open>mc_column\<close> of the Monte Carlo columns, which returns an array or
  raises. An exception of the file service is identified by a name.
\<close>

record input_file =
  events :: "event list"
  read_failure :: "string option"
  mc_column :: "string \<Rightarrow> string + real list"

text \<open>
  The exceptions that can leave the module: the two that NumPy raises in the calls
  the module makes, and an exception of the file service, which the module never
  catches.
\<close>

datatype error = IndexError | ValueError | Raised string

subsection \<open>The NumPy operations the module uses\<close>

text \<open>
  Indexing an array of length \<open>n\<close> with an integer: a negative index counts from the
  end, and an index outside \<open>-n \<le> i < n\<close> raises \<^verbatim>\<open>IndexError\<close>.
\<close>

definition np_pos :: "nat \<Rightarrow> int \<Rightarrow> int" where
  "np_pos n i = (if i < 0 then i + int n else i)"

definition np_index :: "'a list \<Rightarrow> int \<Rightarrow> error + 'a" where
  "np_index xs i =
     (let j = np_pos (length xs) i
      in if 0 \<le> j \<and> j < int (length xs) then Inr (xs ! nat j) else Inl IndexError)"

text \<open>\<^verbatim>\<open>a[order]\<close> with a list of integers: the array of \<^verbatim>\<open>a[i]\<close> for \<open>i\<close> in the list.\<close>

fun np_take :: "'a list \<Rightarrow> int list \<Rightarrow> error + 'a list" where
  "np_take xs [] = Inr []"
| "np_take xs (i # is) =
     (case np_index xs i of
        Inl e \<Rightarrow> Inl e
      | Inr v \<Rightarrow> (case np_take xs is of Inl e \<Rightarrow> Inl e | Inr vs \<Rightarrow> Inr (v # vs)))"

text \<open>
  The difference of two arrays of one dimension, with broadcasting: the lengths are
  equal, or one of them is 1; otherwise \<^verbatim>\<open>ValueError\<close>.
\<close>

definition np_sub :: "real list \<Rightarrow> real list \<Rightarrow> error + real list" where
  "np_sub xs ys =
     (if length xs = length ys then Inr (map2 (-) xs ys)
      else if length xs = 1 then Inr (map (\<lambda>y. hd xs - y) ys)
      else if length ys = 1 then Inr (map (\<lambda>x. x - hd ys) xs)
      else Inl ValueError)"

text \<open>
  \<^verbatim>\<open>np.stack\<close> of a list of tuples of the same length: \<^verbatim>\<open>ValueError\<close> when the
  list is empty.
\<close>

definition np_stack :: "'a list \<Rightarrow> error + 'a list" where
  "np_stack xs = (if xs = [] then Inl ValueError else Inr xs)"

text \<open>
  \<^verbatim>\<open>np.array\<close> of a list of arrays of shape \<open>(k, 3)\<close>: an array of three dimensions
  when every \<open>k\<close> is the same, and \<^verbatim>\<open>ValueError\<close> (NumPy 1.24 and later) when the
  shapes differ.
\<close>

definition np_array :: "'a list list \<Rightarrow> error + 'a list list" where
  "np_array rows =
     (if list_all (\<lambda>r. length r = length (hd rows)) rows then Inr rows else Inl ValueError)"

definition pixel_to_world_arrays :: "grid \<Rightarrow> int list \<Rightarrow> int list \<Rightarrow> real list \<times> real list" where
  "pixel_to_world_arrays g cols rows =
     (let world = map2 (pixel_to_world g) cols rows in (map fst world, map snd world))"

subsection \<open>The module\<close>

text \<open>
  \<^verbatim>\<open>coordinates = [(column, row)] + [(c, r) for c, r in grid.neighbors(column, row)]\<close>
\<close>

definition circular_crown_logical_coordinates :: "int \<Rightarrow> int \<Rightarrow> grid \<Rightarrow> logical list" where
  "circular_crown_logical_coordinates col rw g =
     [(col, rw)] @ map (\<lambda>(c, r). (c, r)) (neighbors g col rw)"

text \<open>
  \<^verbatim>\<open>adc_channel_order = [self.grid.adc_channel(_col, _row) for _col, _row in coordinates]\<close>
\<close>

definition adc_channel_order :: "grid \<Rightarrow> logical list \<Rightarrow> int list" where
  "adc_channel_order g coordinates = map (\<lambda>(c, r). adc_channel g c r) coordinates"

text \<open>
  The body of the loop of \<^verbatim>\<open>input_events_data\<close>: the array appended to
  \<^verbatim>\<open>events_data\<close> for one event. Its entries are the triples
  \<open>(pha, x - x[0], y - y[0])\<close>. The array \<open>x\<close> is as long as \<open>coordinates\<close>, which
  starts with the central pixel, so \<open>x[0]\<close> exists; the list of triples is not empty,
  so \<^verbatim>\<open>np.stack\<close> does not raise.
\<close>

definition input_event_row :: "grid \<Rightarrow> event \<Rightarrow> error + (real \<times> real \<times> real) list" where
  "input_event_row g ev =
     (let coordinates = circular_crown_logical_coordinates (column ev) (row ev) g
      in case np_take (pha ev) (adc_channel_order g coordinates) of
           Inl e \<Rightarrow> Inl e
         | Inr pha' \<Rightarrow>
             (let x_logical = map fst coordinates;
                  y_logical = map snd coordinates;
                  (x, y) = pixel_to_world_arrays g x_logical y_logical
              in Inr (zip (map real_of_int pha')
                        (zip (map (\<lambda>v. v - x ! 0) x) (map (\<lambda>v. v - y ! 0) y)))))"

text \<open>The loop over the events: the first exception ends it.\<close>

fun input_rows :: "grid \<Rightarrow> event list \<Rightarrow> error + (real \<times> real \<times> real) list list" where
  "input_rows g [] = Inr []"
| "input_rows g (ev # evs) =
     (case input_event_row g ev of
        Inl e \<Rightarrow> Inl e
      | Inr r \<Rightarrow> (case input_rows g evs of Inl e \<Rightarrow> Inl e | Inr rs \<Rightarrow> Inr (r # rs)))"

definition input_events_data :: "grid \<Rightarrow> input_file \<Rightarrow> error + (real \<times> real \<times> real) list list" where
  "input_events_data g f =
     (case input_rows g (events f) of
        Inl e \<Rightarrow> Inl e
      | Inr events_data \<Rightarrow>
          (case read_failure f of
             Some e \<Rightarrow> Inl (Raised e)
           | None \<Rightarrow> np_array events_data))"

text \<open>
  \<^verbatim>\<open>target_data\<close>: the three Monte Carlo columns are read first, then the file is
  iterated for the columns and rows of the events, and the hit positions are shifted
  by the position of the central pixel. The result has one triple
  \<open>(energy, x_hit - x_max, y_hit - y_max)\<close> for each position where the three zipped
  arrays all have an entry.
\<close>

definition target_data :: "grid \<Rightarrow> input_file \<Rightarrow> error + (real \<times> real \<times> real) list" where
  "target_data g f =
     (case mc_column f ''energy'' of
        Inl e \<Rightarrow> Inl (Raised e)
      | Inr energy_target_array \<Rightarrow>
     (case mc_column f ''absx'' of
        Inl e \<Rightarrow> Inl (Raised e)
      | Inr x_hit \<Rightarrow>
     (case mc_column f ''absy'' of
        Inl e \<Rightarrow> Inl (Raised e)
      | Inr y_hit \<Rightarrow>
     (case read_failure f of
        Some e \<Rightarrow> Inl (Raised e)
      | None \<Rightarrow>
     (let cols = map column (events f);
          rows = map row (events f);
          (x_max, y_max) = pixel_to_world_arrays g cols rows
      in case np_sub x_hit x_max of
           Inl e \<Rightarrow> Inl e
         | Inr dx \<Rightarrow>
        (case np_sub y_hit y_max of
           Inl e \<Rightarrow> Inl e
         | Inr dy \<Rightarrow>
        (case np_stack (zip dx dy) of
           Inl e \<Rightarrow> Inl e
         | Inr target_coordinates \<Rightarrow>
             np_stack (zip energy_target_array (zip dx dy)))))))))"

subsection \<open>Concrete inputs\<close>

text \<open>
  A grid of 10 columns and 10 rows in which the odd rows are shifted to the right by
  half a pixel, with pitch 1. Its \<open>neighbors\<close> yields the pixels of the grid next to
  a pixel, starting at the upper right one and going clockwise; its \<open>adc_channel\<close>
  gives a pixel and its six neighbours seven different channels from 0 to 6.
\<close>

definition odd_r_offsets :: "int \<Rightarrow> logical list" where
  "odd_r_offsets r =
     (if even r then [(0, -1), (1, 0), (0, 1), (-1, 1), (-1, 0), (-1, -1)]
      else [(1, -1), (1, 0), (1, 1), (0, 1), (-1, 0), (0, -1)])"

definition sample_grid :: grid where
  "sample_grid =
     \<lparr>neighbors = (\<lambda>c r. filter (\<lambda>(c', r'). 0 \<le> c' \<and> c' < 10 \<and> 0 \<le> r' \<and> r' < 10)
                      (map (\<lambda>(dc, dr). (c + dc, r + dr)) (odd_r_offsets r))),
      adc_channel = (\<lambda>c r. (c - (r - r mod 2) div 2 + 3 * r) mod 7),
      pixel_to_world = (\<lambda>c r. (real_of_int c + (if even r then 0 else 1 / 2),
                                 - real_of_int r * (433 / 500)))\<rparr>"

text \<open>The same grid, whose \<open>neighbors\<close> starts one pixel later around the crown.\<close>

definition rotated_grid :: grid where
  "rotated_grid = sample_grid\<lparr>neighbors := (\<lambda>c r. rotate 1 (neighbors sample_grid c r))\<rparr>"

text \<open>Two events inside the grid and one at its corner.\<close>

definition sample_event :: event where
  "sample_event = \<lparr>column = 5, row = 5, pha = [10, 20, 30, 40, 50, 60, 70]\<rparr>"

definition second_event :: event where
  "second_event = \<lparr>column = 4, row = 4, pha = [1, 2, 3, 4, 5, 6, 7]\<rparr>"

definition corner_event :: event where
  "corner_event = \<lparr>column = 0, row = 0, pha = [10, 20, 30, 40, 50, 60, 70]\<rparr>"

text \<open>
  A file of two events with its Monte Carlo columns; the hit of the first event is
  at the position of its central pixel.
\<close>

definition sample_columns :: "string \<Rightarrow> string + real list" where
  "sample_columns name =
     (if name = ''energy'' then Inr [5900, 6400]
      else if name = ''absx'' then Inr [11 / 2, 41 / 10]
      else if name = ''absy'' then Inr [- (433 / 100), - (7 / 2)]
      else Inl ''KeyError'')"

definition sample_file :: input_file where
  "sample_file = \<lparr>events = [sample_event, second_event], read_failure = None,
     mc_column = sample_columns\<rparr>"

text \<open>A file whose only event is at the corner of the grid.\<close>

definition corner_file :: input_file where
  "corner_file = \<lparr>events = [corner_event], read_failure = None,
     mc_column = (\<lambda>name. Inr [5900])\<rparr>"

text \<open>A file with an event inside the grid and an event at its corner.\<close>

definition mixed_file :: input_file where
  "mixed_file = \<lparr>events = [sample_event, corner_event], read_failure = None,
     mc_column = sample_columns\<rparr>"

text \<open>A file with no event.\<close>

definition empty_file :: input_file where
  "empty_file = \<lparr>events = [], read_failure = None, mc_column = (\<lambda>name. Inr [])\<rparr>"

text \<open>
  A file with no Monte Carlo column, whose accessor raises, and a file with the
  columns whose iteration raises the same exception after the first event.
\<close>

definition no_truth_file :: input_file where
  "no_truth_file = \<lparr>events = [sample_event, second_event], read_failure = None,
     mc_column = (\<lambda>name. Inl ''ServiceError'')\<rparr>"

definition unreadable_file :: input_file where
  "unreadable_file = \<lparr>events = [sample_event], read_failure = Some ''ServiceError'',
     mc_column = sample_columns\<rparr>"

section \<open>Properties\<close>

subsection \<open>Facts about the operations\<close>

lemma crown_Cons: "circular_crown_logical_coordinates c r g = (c, r) # neighbors g c r"
  by (simp add: circular_crown_logical_coordinates_def)

lemma np_take_Inr:
  "np_take xs js = Inr vs \<Longrightarrow>
     length vs = length js \<and> (\<forall>k<length js. np_index xs (js ! k) = Inr (vs ! k))"
proof (induction js arbitrary: vs)
  case Nil
  then show ?case by simp
next
  case (Cons j js)
  from Cons.prems obtain v ws where v: "np_index xs j = Inr v"
    and ws: "np_take xs js = Inr ws" and vs: "vs = v # ws"
    by (auto split: sum.splits)
  from Cons.IH [OF ws] have "length ws = length js"
    and nth: "\<forall>k<length js. np_index xs (js ! k) = Inr (ws ! k)" by simp_all
  then show ?case using v vs
    by (auto simp: nth_Cons split: nat.splits)
qed

lemma np_take_in_range:
  "\<forall>j\<in>set js. 0 \<le> j \<and> j < int (length xs) \<Longrightarrow>
     np_take xs js = Inr (map (\<lambda>j. xs ! nat j) js)"
  by (induction js) (auto simp: np_index_def np_pos_def)

lemma np_index_Inr:
  "np_index xs j = Inr v \<Longrightarrow> v = xs ! nat (np_pos (length xs) j)"
  by (auto simp: np_index_def Let_def split: if_splits)

lemma map2_fst_snd: "map2 f (map fst cs) (map snd cs) = map (\<lambda>p. f (fst p) (snd p)) cs"
  by (induction cs) auto

lemma zip_same_map: "zip (map f xs) (map h xs) = map (\<lambda>x. (f x, h x)) xs"
  by (induction xs) auto

text \<open>
  The row of an event, with the arrays \<open>x\<close> and \<open>y\<close> written out: the signal of
  each pixel of \<open>coordinates\<close> beside the position of the pixel relative to the
  central one.
\<close>

lemma input_event_row_unfold:
  "input_event_row g ev =
     (case np_take (pha ev)
         (adc_channel_order g (circular_crown_logical_coordinates (column ev) (row ev) g)) of
        Inl e \<Rightarrow> Inl e
      | Inr ph \<Rightarrow> Inr (zip (map real_of_int ph)
          (map (\<lambda>p. (fst (pixel_to_world g (fst p) (snd p))
                        - fst (pixel_to_world g (column ev) (row ev)),
                      snd (pixel_to_world g (fst p) (snd p))
                        - snd (pixel_to_world g (column ev) (row ev))))
             (circular_crown_logical_coordinates (column ev) (row ev) g))))"
  by (simp add: input_event_row_def pixel_to_world_arrays_def Let_def
      map2_fst_snd zip_same_map crown_Cons case_prod_unfold split: sum.splits)

lemma input_event_row_nth:
  assumes "input_event_row g ev = Inr rw"
  shows "length rw = length (circular_crown_logical_coordinates (column ev) (row ev) g)"
    and "i < length rw \<Longrightarrow>
       np_index (pha ev)
         (adc_channel_order g (circular_crown_logical_coordinates (column ev) (row ev) g) ! i)
       = Inr (pha ev ! nat (np_pos (length (pha ev))
           (adc_channel_order g (circular_crown_logical_coordinates (column ev) (row ev) g) ! i)))"
    and "i < length rw \<Longrightarrow>
       fst (rw ! i) = real_of_int (pha ev ! nat (np_pos (length (pha ev))
           (adc_channel_order g (circular_crown_logical_coordinates (column ev) (row ev) g) ! i)))"
    and "i < length rw \<Longrightarrow> p = circular_crown_logical_coordinates (column ev) (row ev) g ! i \<Longrightarrow>
       snd (rw ! i) =
         (fst (pixel_to_world g (fst p) (snd p)) - fst (pixel_to_world g (column ev) (row ev)),
          snd (pixel_to_world g (fst p) (snd p)) - snd (pixel_to_world g (column ev) (row ev)))"
proof -
  let ?cs = "circular_crown_logical_coordinates (column ev) (row ev) g"
  let ?ch = "adc_channel_order g ?cs"
  from assms obtain ph where ph: "np_take (pha ev) ?ch = Inr ph"
    and rw: "rw = zip (map real_of_int ph)
          (map (\<lambda>p. (fst (pixel_to_world g (fst p) (snd p))
                        - fst (pixel_to_world g (column ev) (row ev)),
                      snd (pixel_to_world g (fst p) (snd p))
                        - snd (pixel_to_world g (column ev) (row ev)))) ?cs)"
    by (auto simp: input_event_row_unfold split: sum.splits)
  from np_take_Inr [OF ph] have len: "length ph = length ?ch"
    and nth: "\<And>k. k < length ?ch \<Longrightarrow> np_index (pha ev) (?ch ! k) = Inr (ph ! k)"
    by simp_all
  have lc: "length ?ch = length ?cs"
    by (simp add: adc_channel_order_def)
  show l: "length rw = length ?cs"
    using rw len lc by simp
  have v: "ph ! i = pha ev ! nat (np_pos (length (pha ev)) (?ch ! i))" if "i < length rw"
    using that l lc nth [of i] by (simp add: np_index_Inr)
  show "np_index (pha ev) (?ch ! i) = Inr (pha ev ! nat (np_pos (length (pha ev)) (?ch ! i)))"
    if "i < length rw"
    using that l lc nth [of i] v by simp
  show "fst (rw ! i) = real_of_int (pha ev ! nat (np_pos (length (pha ev)) (?ch ! i)))"
    if "i < length rw"
    using that v rw len lc by simp
  show "snd (rw ! i) =
         (fst (pixel_to_world g (fst p) (snd p)) - fst (pixel_to_world g (column ev) (row ev)),
          snd (pixel_to_world g (fst p) (snd p)) - snd (pixel_to_world g (column ev) (row ev)))"
    if "i < length rw" "p = ?cs ! i"
    using that rw len lc by simp
qed

text \<open>The row is emitted when every channel is an index of \<open>pha\<close>.\<close>

lemma input_event_row_returns:
  assumes "\<forall>j\<in>set (adc_channel_order g (circular_crown_logical_coordinates (column ev) (row ev) g)).
             0 \<le> j \<and> j < int (length (pha ev))"
  shows "\<exists>rw. input_event_row g ev = Inr rw"
  by (simp add: input_event_row_unfold np_take_in_range [OF assms])

subsection \<open>Facts about the concrete inputs\<close>

lemma neighbors_sample_5_5:
  "neighbors sample_grid 5 5 = [(6, 4), (6, 5), (6, 6), (5, 6), (4, 5), (5, 4)]"
  by (simp add: sample_grid_def odd_r_offsets_def)

lemma neighbors_sample_4_4:
  "neighbors sample_grid 4 4 = [(4, 3), (5, 4), (4, 5), (3, 5), (3, 4), (3, 3)]"
  by (simp add: sample_grid_def odd_r_offsets_def)

lemma neighbors_sample_0_0: "neighbors sample_grid 0 0 = [(1, 0), (0, 1)]"
  by (simp add: sample_grid_def odd_r_offsets_def)

lemma neighbors_rotated_5_5:
  "neighbors rotated_grid 5 5 = [(6, 5), (6, 6), (5, 6), (4, 5), (5, 4), (6, 4)]"
  by (simp add: rotated_grid_def neighbors_sample_5_5)

lemma channel_sample: "adc_channel sample_grid c r = (c - (r - r mod 2) div 2 + 3 * r) mod 7"
  by (simp add: sample_grid_def)

lemma world_sample:
  "pixel_to_world sample_grid c r =
     (real_of_int c + (if even r then 0 else 1 / 2), - real_of_int r * (433 / 500))"
  by (simp add: sample_grid_def)

lemma row_sample_event:
  "input_event_row sample_grid sample_event =
     Inr [(50, 0, 0), (30, 1 / 2, 433 / 500), (60, 1, 0), (10, 1 / 2, - (433 / 500)),
          (70, - (1 / 2), - (433 / 500)), (40, - 1, 0), (20, - (1 / 2), 433 / 500)]"
  by (simp add: input_event_row_unfold crown_Cons adc_channel_order_def sample_event_def
      neighbors_sample_5_5 channel_sample world_sample np_index_def np_pos_def)

lemma row_second_event:
  "input_event_row sample_grid second_event =
     Inr [(1, 0, 0), (6, 1 / 2, 433 / 500), (2, 1, 0), (4, 1 / 2, - (433 / 500)),
          (3, - (1 / 2), - (433 / 500)), (7, - 1, 0), (5, - (1 / 2), 433 / 500)]"
  by (simp add: input_event_row_unfold crown_Cons adc_channel_order_def second_event_def
      neighbors_sample_4_4 channel_sample world_sample np_index_def np_pos_def)

lemma row_corner_event:
  "input_event_row sample_grid corner_event =
     Inr [(10, 0, 0), (20, 1, 0), (40, 1 / 2, - (433 / 500))]"
  by (simp add: input_event_row_unfold crown_Cons adc_channel_order_def corner_event_def
      neighbors_sample_0_0 channel_sample world_sample np_index_def np_pos_def)



subsection \<open>The order of the neighbours\<close>

text \<open>
  C10. For every input coordinate, also one at the edge or at the corner of the
  grid, \<open>circular_crown_logical_coordinates\<close> returns the list made of the
  coordinate itself followed by what \<open>neighbors\<close> yields, unchanged and in the order
  of the grid; its length is one more than the number of neighbours. The function
  has no error to return.
\<close>

theorem crown_is_center_then_neighbors:
  "circular_crown_logical_coordinates col rw g = [(col, rw)] @ neighbors g col rw
   \<and> length (circular_crown_logical_coordinates col rw g) = 1 + length (neighbors g col rw)"
  by (simp add: circular_crown_logical_coordinates_def)

theorem crown_is_center_then_neighbors_witness:
  "circular_crown_logical_coordinates 0 0 sample_grid = [(0, 0), (1, 0), (0, 1)]
   \<and> length (circular_crown_logical_coordinates 0 0 sample_grid) = 3"
  using crown_is_center_then_neighbors [of 0 0 sample_grid]
  by (simp add: neighbors_sample_0_0)

text \<open>
  C2. For a coordinate \<open>(c, r)\<close> of which the grid yields exactly 6 neighbours, the
  result has length 7, its element 0 is \<open>(c, r)\<close>, and its elements 1 to 6 are a
  permutation of the neighbours.
\<close>

theorem crown_of_interior_pixel:
  assumes "length (neighbors g c r) = 6"
  shows "length (circular_crown_logical_coordinates c r g) = 7
    \<and> circular_crown_logical_coordinates c r g ! 0 = (c, r)
    \<and> mset (drop 1 (circular_crown_logical_coordinates c r g)) = mset (neighbors g c r)"
  using assms by (simp add: crown_Cons)

theorem crown_of_interior_pixel_witness:
  "length (neighbors sample_grid 5 5) = 6
   \<and> length (circular_crown_logical_coordinates 5 5 sample_grid) = 7
   \<and> circular_crown_logical_coordinates 5 5 sample_grid ! 0 = (5, 5)
   \<and> mset (drop 1 (circular_crown_logical_coordinates 5 5 sample_grid))
       = mset (neighbors sample_grid 5 5)"
  using crown_of_interior_pixel [of sample_grid 5 5]
  by (simp add: neighbors_sample_5_5)

text \<open>
  C1, as the specification states it, fails: the function does not classify the
  neighbours by direction, so two grids that yield the same six neighbours of \<open>(5, 5)\<close>,
  one starting a pixel later than the other, give two different results.
\<close>

theorem crown_depends_on_reporting_order:
  "length (neighbors sample_grid 5 5) = 6
   \<and> neighbors rotated_grid 5 5 = rotate 1 (neighbors sample_grid 5 5)
   \<and> circular_crown_logical_coordinates 5 5 sample_grid
       = [(5, 5), (6, 4), (6, 5), (6, 6), (5, 6), (4, 5), (5, 4)]
   \<and> circular_crown_logical_coordinates 5 5 rotated_grid
       = [(5, 5), (6, 5), (6, 6), (5, 6), (4, 5), (5, 4), (6, 4)]
   \<and> circular_crown_logical_coordinates 5 5 rotated_grid
       \<noteq> circular_crown_logical_coordinates 5 5 sample_grid"
  by (simp add: crown_Cons neighbors_sample_5_5 neighbors_rotated_5_5)

text \<open>
  C1, amended. For a coordinate with 6 neighbours, the result has length 7 and
  starts with the coordinate, and its elements 1 to 6 are exactly the list that
  \<open>neighbors\<close> yields, in the order in which the grid yields it: when that order is
  rotated by \<open>k\<close>, the elements 1 to 6 of the result are rotated by \<open>k\<close> too, and
  the result is the same exactly when the rotation leaves the order of the grid
  unchanged.
\<close>

theorem crown_follows_reporting_order:
  assumes "length (neighbors g c r) = 6"
    and "neighbors g' c r = rotate k (neighbors g c r)"
  shows "length (circular_crown_logical_coordinates c r g') = 7
    \<and> circular_crown_logical_coordinates c r g' ! 0 = (c, r)
    \<and> drop 1 (circular_crown_logical_coordinates c r g') = neighbors g' c r
    \<and> drop 1 (circular_crown_logical_coordinates c r g) = neighbors g c r
    \<and> drop 1 (circular_crown_logical_coordinates c r g')
        = rotate k (drop 1 (circular_crown_logical_coordinates c r g))
    \<and> (circular_crown_logical_coordinates c r g' = circular_crown_logical_coordinates c r g
        \<longleftrightarrow> rotate k (neighbors g c r) = neighbors g c r)"
  using assms by (simp add: crown_Cons)

theorem crown_follows_reporting_order_witness:
  "length (neighbors sample_grid 5 5) = 6
   \<and> neighbors rotated_grid 5 5 = rotate 1 (neighbors sample_grid 5 5)
   \<and> length (circular_crown_logical_coordinates 5 5 rotated_grid) = 7
   \<and> circular_crown_logical_coordinates 5 5 rotated_grid ! 0 = (5, 5)
   \<and> drop 1 (circular_crown_logical_coordinates 5 5 rotated_grid)
       = neighbors rotated_grid 5 5
   \<and> neighbors rotated_grid 5 5 = [(6, 5), (6, 6), (5, 6), (4, 5), (5, 4), (6, 4)]
   \<and> drop 1 (circular_crown_logical_coordinates 5 5 sample_grid)
       = neighbors sample_grid 5 5
   \<and> drop 1 (circular_crown_logical_coordinates 5 5 rotated_grid)
       = rotate 1 (drop 1 (circular_crown_logical_coordinates 5 5 sample_grid))"
  using crown_follows_reporting_order [of sample_grid 5 5 rotated_grid 1]
  by (simp add: crown_Cons neighbors_sample_5_5 neighbors_rotated_5_5)

text \<open>
  C3, as the specification states it, fails: at the corner \<open>(0, 0)\<close> the grid yields
  2 neighbours, and the function returns a list of 3 coordinates. Nothing is
  signalled later either: the data set of a file whose only event is at the corner
  has one row, of 3 entries.
\<close>

theorem crown_of_corner_is_returned:
  "length (neighbors sample_grid 0 0) = 2
   \<and> circular_crown_logical_coordinates 0 0 sample_grid = [(0, 0), (1, 0), (0, 1)]
   \<and> input_events_data sample_grid corner_file
       = Inr [ [(10, 0, 0), (20, 1, 0), (40, 1 / 2, - (433 / 500))]]"
  by (simp add: crown_Cons neighbors_sample_0_0 input_events_data_def corner_file_def
      row_corner_event np_array_def)

text \<open>
  C3, amended. For a coordinate of which the grid yields a number of neighbours
  other than 6, the function returns the coordinate followed by these neighbours: a
  list one longer than the number of neighbours, so of a length other than 7.
\<close>

theorem crown_of_incomplete_neighborhood:
  assumes "length (neighbors g c r) \<noteq> 6"
  shows "circular_crown_logical_coordinates c r g = (c, r) # neighbors g c r
    \<and> length (circular_crown_logical_coordinates c r g) = 1 + length (neighbors g c r)
    \<and> length (circular_crown_logical_coordinates c r g) \<noteq> 7"
  using assms by (simp add: crown_Cons)

theorem crown_of_incomplete_neighborhood_witness:
  "length (neighbors sample_grid 0 0) \<noteq> 6
   \<and> circular_crown_logical_coordinates 0 0 sample_grid = (0, 0) # neighbors sample_grid 0 0
   \<and> length (circular_crown_logical_coordinates 0 0 sample_grid) = 3"
  using crown_of_incomplete_neighborhood [of sample_grid 0 0]
  by (simp add: neighbors_sample_0_0)

subsection \<open>The row of an event\<close>



text \<open>
  C5. Whenever the row of an event is emitted, its entry 0, the one of the central
  pixel, has the offset \<open>(x[0] - x[0], y[0] - y[0]) = (0, 0)\<close>.
\<close>

theorem central_offset_is_zero:
  assumes "input_event_row g ev = Inr rw"
  shows "rw \<noteq> [] \<and> snd (rw ! 0) = (0, 0)"
proof -
  have len: "length rw = Suc (length (neighbors g (column ev) (row ev)))"
    using input_event_row_nth(1) [OF assms] by (simp add: crown_Cons)
  then have "0 < length rw" by simp
  from input_event_row_nth(4) [OF assms this, of "(column ev, row ev)"]
  have "snd (rw ! 0) = (0, 0)"
    by (simp add: crown_Cons)
  then show ?thesis using len by auto
qed

theorem central_offset_is_zero_witness:
  "input_event_row sample_grid second_event
     = Inr [(1, 0, 0), (6, 1 / 2, 433 / 500), (2, 1, 0), (4, 1 / 2, - (433 / 500)),
            (3, - (1 / 2), - (433 / 500)), (7, - 1, 0), (5, - (1 / 2), 433 / 500)]
   \<and> snd ([(1, 0, 0), (6, 1 / 2, 433 / 500), (2, 1, 0), (4, 1 / 2, - (433 / 500)),
            (3, - (1 / 2), - (433 / 500)), (7, - 1, 0), (5, - (1 / 2), 433 / 500)] ! 0)
       = (0 :: real, 0 :: real)"
  using central_offset_is_zero [OF row_second_event]
  by (simp add: row_second_event)



subsection \<open>The two data sets\<close>

lemma input_rows_Inr:
  "input_rows g evs = Inr rs \<Longrightarrow>
     length rs = length evs \<and> (\<forall>i<length evs. input_event_row g (evs ! i) = Inr (rs ! i))"
proof (induction evs arbitrary: rs)
  case Nil
  then show ?case by simp
next
  case (Cons ev evs)
  from Cons.prems obtain r ws where r: "input_event_row g ev = Inr r"
    and ws: "input_rows g evs = Inr ws" and rs: "rs = r # ws"
    by (auto split: sum.splits)
  from Cons.IH [OF ws] show ?case using r rs
    by (auto simp: nth_Cons split: nat.splits)
qed

lemma input_rows_returns:
  "\<forall>ev\<in>set evs. \<exists>rw. input_event_row g ev = Inr rw \<Longrightarrow> \<exists>rs. input_rows g evs = Inr rs"
  by (induction evs) auto

lemma input_events_data_Inr:
  assumes "input_events_data g f = Inr F"
  shows "input_rows g (events f) = Inr F" and "read_failure f = None"
  using assms
  by (auto simp: input_events_data_def np_array_def split: sum.splits option.splits if_splits)

text \<open>
  \<open>target_data\<close> on a file with at least one event, whose iteration does not raise
  and whose three Monte Carlo columns have one entry for each event.
\<close>

lemma target_data_aligned:
  assumes "events f \<noteq> []" and "read_failure f = None"
    and "mc_column f ''energy'' = Inr en" and "mc_column f ''absx'' = Inr xh"
    and "mc_column f ''absy'' = Inr yh"
    and "length en = length (events f)" and "length xh = length (events f)"
    and "length yh = length (events f)"
  shows "target_data g f =
     Inr (map (\<lambda>i. (en ! i,
                    xh ! i - fst (pixel_to_world g (column (events f ! i)) (row (events f ! i))),
                    yh ! i - snd (pixel_to_world g (column (events f ! i)) (row (events f ! i)))))
            [0..<length (events f)])"
proof -
  let ?evs = "events f"
  let ?w = "\<lambda>ev. pixel_to_world g (column ev) (row ev)"
  have arrays: "pixel_to_world_arrays g (map column ?evs) (map row ?evs)
      = (map (\<lambda>ev. fst (?w ev)) ?evs, map (\<lambda>ev. snd (?w ev)) ?evs)"
    by (simp add: pixel_to_world_arrays_def zip_same_map)
  have dx: "np_sub xh (map (\<lambda>ev. fst (?w ev)) ?evs)
      = Inr (map2 (-) xh (map (\<lambda>ev. fst (?w ev)) ?evs))"
    using assms(7) by (simp add: np_sub_def)
  have dy: "np_sub yh (map (\<lambda>ev. snd (?w ev)) ?evs)
      = Inr (map2 (-) yh (map (\<lambda>ev. snd (?w ev)) ?evs))"
    using assms(8) by (simp add: np_sub_def)
  let ?dx = "map2 (-) xh (map (\<lambda>ev. fst (?w ev)) ?evs)"
  let ?dy = "map2 (-) yh (map (\<lambda>ev. snd (?w ev)) ?evs)"
  have ldx: "length ?dx = length ?evs" and ldy: "length ?dy = length ?evs"
    using assms(7,8) by simp_all
  have ne: "en \<noteq> []" "xh \<noteq> []" "yh \<noteq> []"
    using assms(1,6,7,8) by auto
  have td: "target_data g f = Inr (zip en (zip ?dx ?dy))"
    by (simp add: target_data_def assms(1,2,3,4,5) arrays dx dy np_stack_def ne)
  have "zip en (zip ?dx ?dy) =
     map (\<lambda>i. (en ! i, xh ! i - fst (?w (?evs ! i)), yh ! i - snd (?w (?evs ! i))))
       [0..<length ?evs]"
    using assms(6,7,8) by (intro nth_equalityI) simp_all
  then show ?thesis using td by simp
qed

text \<open>
  C7. On a file with at least one event, whose iteration does not raise and whose
  columns \<open>energy\<close>, \<open>absx\<close> and \<open>absy\<close> have one entry for each event,
  \<open>target_data\<close> returns one row for each event: the energy, and the hit position
  minus the position of the central pixel of the event. When the hit is at the
  position of the central pixel, the offset is \<open>(0, 0)\<close>.
\<close>

theorem target_rows_are_energy_and_offset:
  assumes "events f \<noteq> []" and "read_failure f = None"
    and "mc_column f ''energy'' = Inr en" and "mc_column f ''absx'' = Inr xh"
    and "mc_column f ''absy'' = Inr yh"
    and "length en = length (events f)" and "length xh = length (events f)"
    and "length yh = length (events f)"
  shows "\<exists>T. target_data g f = Inr T \<and> length T = length (events f)
    \<and> (\<forall>i<length (events f).
          T ! i = (en ! i,
                   xh ! i - fst (pixel_to_world g (column (events f ! i)) (row (events f ! i))),
                   yh ! i - snd (pixel_to_world g (column (events f ! i)) (row (events f ! i))))
        \<and> ((xh ! i, yh ! i) = pixel_to_world g (column (events f ! i)) (row (events f ! i))
             \<longrightarrow> snd (T ! i) = (0, 0)))"
proof -
  have "(xh ! i, yh ! i) = pixel_to_world g c r \<longrightarrow>
      (xh ! i - fst (pixel_to_world g c r), yh ! i - snd (pixel_to_world g c r)) = (0, 0)"
    for i c r
    by (metis diff_self fst_conv snd_conv)
  then show ?thesis
    by (simp add: target_data_aligned [OF assms])
qed

lemma columns_sample_file:
  "mc_column sample_file ''energy'' = Inr [5900, 6400]"
  "mc_column sample_file ''absx'' = Inr [11 / 2, 41 / 10]"
  "mc_column sample_file ''absy'' = Inr [- (433 / 100), - (7 / 2)]"
  by (simp_all add: sample_file_def sample_columns_def)

lemma events_sample_file:
  "events sample_file = [sample_event, second_event]" "read_failure sample_file = None"
  by (simp_all add: sample_file_def)

lemma target_sample_file:
  "target_data sample_grid sample_file
     = Inr [(5900, 0, 0), (6400, 1 / 10, - (9 / 250))]"
  by (simp add: target_data_aligned [OF _ _ columns_sample_file] events_sample_file
      sample_event_def second_event_def world_sample upt_conv_Cons)

theorem target_rows_are_energy_and_offset_witness:
  "events sample_file \<noteq> [] \<and> read_failure sample_file = None
   \<and> mc_column sample_file ''energy'' = Inr [5900, 6400]
   \<and> mc_column sample_file ''absx'' = Inr [11 / 2, 41 / 10]
   \<and> mc_column sample_file ''absy'' = Inr [- (433 / 100), - (7 / 2)]
   \<and> length (events sample_file) = 2
   \<and> pixel_to_world sample_grid (column (events sample_file ! 0)) (row (events sample_file ! 0))
       = (11 / 2, - (433 / 100))
   \<and> target_data sample_grid sample_file = Inr [(5900, 0, 0), (6400, 1 / 10, - (9 / 250))]"
proof -
  have w: "pixel_to_world sample_grid (column (events sample_file ! 0))
      (row (events sample_file ! 0)) = (11 / 2, - (433 / 100))"
    by (simp add: events_sample_file sample_event_def world_sample)
  have l: "length (events sample_file) = 2" "events sample_file \<noteq> []"
    by (simp_all add: events_sample_file)
  show ?thesis
    using target_rows_are_energy_and_offset [OF _ _ columns_sample_file, of sample_grid]
      w l columns_sample_file events_sample_file(2) target_sample_file
    by blast
qed

text \<open>
  On a file with no event \<open>input_events_data\<close> returns an array with no row, and
  \<open>target_data\<close> raises \<^verbatim>\<open>ValueError\<close>, since \<^verbatim>\<open>np.stack\<close> is given an empty
  list.
\<close>

lemma data_sets_of_empty_file:
  "input_events_data sample_grid empty_file = Inr []
   \<and> target_data sample_grid empty_file = Inl ValueError"
  by (simp add: input_events_data_def target_data_def empty_file_def np_array_def
      pixel_to_world_arrays_def np_sub_def np_stack_def)

lemma columns_mixed_file:
  "mc_column mixed_file ''energy'' = Inr [5900, 6400]"
  "mc_column mixed_file ''absx'' = Inr [11 / 2, 41 / 10]"
  "mc_column mixed_file ''absy'' = Inr [- (433 / 100), - (7 / 2)]"
  by (simp_all add: mixed_file_def sample_columns_def)

lemma events_mixed_file:
  "events mixed_file = [sample_event, corner_event]" "read_failure mixed_file = None"
  by (simp_all add: mixed_file_def)

lemma target_mixed_file:
  "target_data sample_grid mixed_file
     = Inr [(5900, 0, 0), (6400, 41 / 10, - (7 / 2))]"
  by (simp add: target_data_aligned [OF _ _ columns_mixed_file] events_mixed_file
      sample_event_def corner_event_def world_sample upt_conv_Cons)

lemma features_mixed_file:
  "input_events_data sample_grid mixed_file = Inl ValueError"
  by (simp add: input_events_data_def events_mixed_file row_sample_event row_corner_event
      np_array_def)

text \<open>
  C8, as the specification states it, fails: no event is left out under a skip
  policy, by either method. On a file with an event inside the grid and an event at
  the corner, of which the grid yields 2 neighbours, \<open>target_data\<close> returns a row
  for each of the two events, that of the corner included, and
  \<open>input_events_data\<close> returns no data set: the rows of the two events have 7 and 3
  entries, and \<^verbatim>\<open>np.array\<close> raises \<^verbatim>\<open>ValueError\<close> on them (NumPy 1.24 and
  later). The two data sets of this file do not have the same number of rows.
\<close>

theorem data_sets_of_mixed_file_differ:
  "events mixed_file = [sample_event, corner_event]
   \<and> length (neighbors sample_grid (column corner_event) (row corner_event)) = 2
   \<and> input_event_row sample_grid sample_event
       = Inr [(50, 0, 0), (30, 1 / 2, 433 / 500), (60, 1, 0), (10, 1 / 2, - (433 / 500)),
              (70, - (1 / 2), - (433 / 500)), (40, - 1, 0), (20, - (1 / 2), 433 / 500)]
   \<and> input_event_row sample_grid corner_event
       = Inr [(10, 0, 0), (20, 1, 0), (40, 1 / 2, - (433 / 500))]
   \<and> input_events_data sample_grid mixed_file = Inl ValueError
   \<and> target_data sample_grid mixed_file = Inr [(5900, 0, 0), (6400, 41 / 10, - (7 / 2))]"
proof -
  have "length (neighbors sample_grid (column corner_event) (row corner_event)) = 2"
    by (simp add: corner_event_def neighbors_sample_0_0)
  then show ?thesis
    using events_mixed_file(1) row_sample_event row_corner_event features_mixed_file
      target_mixed_file
    by blast
qed

text \<open>
  C8, amended. Whenever both methods return on a file whose columns \<open>energy\<close>,
  \<open>absx\<close> and \<open>absy\<close> have one entry for each event, the two data sets have as many
  rows as the file has events, no event being left out of either, and row \<open>i\<close> of each
  is computed from event \<open>i\<close>: row \<open>i\<close> of the features is the row of signals and
  offsets of event \<open>i\<close>, and row \<open>i\<close> of the targets is its energy and the offset of its
  hit.
\<close>

theorem data_sets_are_aligned:
  assumes "input_events_data g f = Inr F" and "target_data g f = Inr T"
    and "mc_column f ''energy'' = Inr en" and "mc_column f ''absx'' = Inr xh"
    and "mc_column f ''absy'' = Inr yh"
    and "length en = length (events f)" and "length xh = length (events f)"
    and "length yh = length (events f)"
  shows "length F = length T \<and> length F = length (events f)
    \<and> (\<forall>i<length (events f).
          input_event_row g (events f ! i) = Inr (F ! i)
        \<and> T ! i = (en ! i,
                   xh ! i - fst (pixel_to_world g (column (events f ! i)) (row (events f ! i))),
                   yh ! i - snd (pixel_to_world g (column (events f ! i)) (row (events f ! i)))))"
proof -
  note rows = input_events_data_Inr [OF assms(1)]
  have ne: "events f \<noteq> []"
  proof
    assume "events f = []"
    then have "target_data g f = Inl ValueError"
      using assms(3-8) rows(2)
      by (simp add: target_data_def pixel_to_world_arrays_def np_sub_def np_stack_def)
    then show False using assms(2) by simp
  qed
  from target_data_aligned [OF ne rows(2) assms(3-8), of g] assms(2)
  have T: "T = map (\<lambda>i. (en ! i,
                    xh ! i - fst (pixel_to_world g (column (events f ! i)) (row (events f ! i))),
                    yh ! i - snd (pixel_to_world g (column (events f ! i)) (row (events f ! i)))))
            [0..<length (events f)]"
    by simp
  from input_rows_Inr [OF rows(1)] have "length F = length (events f)"
    and "\<forall>i<length (events f). input_event_row g (events f ! i) = Inr (F ! i)"
    by simp_all
  then show ?thesis using T by simp
qed

lemma features_sample_file:
  "input_events_data sample_grid sample_file =
     Inr [ [(50, 0, 0), (30, 1 / 2, 433 / 500), (60, 1, 0), (10, 1 / 2, - (433 / 500)),
           (70, - (1 / 2), - (433 / 500)), (40, - 1, 0), (20, - (1 / 2), 433 / 500)],
          [(1, 0, 0), (6, 1 / 2, 433 / 500), (2, 1, 0), (4, 1 / 2, - (433 / 500)),
           (3, - (1 / 2), - (433 / 500)), (7, - 1, 0), (5, - (1 / 2), 433 / 500)]]"
  by (simp add: input_events_data_def events_sample_file row_sample_event row_second_event
      np_array_def)

theorem data_sets_are_aligned_witness:
  "input_events_data sample_grid sample_file =
     Inr [ [(50, 0, 0), (30, 1 / 2, 433 / 500), (60, 1, 0), (10, 1 / 2, - (433 / 500)),
           (70, - (1 / 2), - (433 / 500)), (40, - 1, 0), (20, - (1 / 2), 433 / 500)],
          [(1, 0, 0), (6, 1 / 2, 433 / 500), (2, 1, 0), (4, 1 / 2, - (433 / 500)),
           (3, - (1 / 2), - (433 / 500)), (7, - 1, 0), (5, - (1 / 2), 433 / 500)]]
   \<and> target_data sample_grid sample_file = Inr [(5900, 0, 0), (6400, 1 / 10, - (9 / 250))]
   \<and> mc_column sample_file ''energy'' = Inr [5900, 6400]
   \<and> mc_column sample_file ''absx'' = Inr [11 / 2, 41 / 10]
   \<and> mc_column sample_file ''absy'' = Inr [- (433 / 100), - (7 / 2)]
   \<and> length (events sample_file) = 2
   \<and> input_event_row sample_grid (events sample_file ! 1)
       = Inr [(1, 0, 0), (6, 1 / 2, 433 / 500), (2, 1, 0), (4, 1 / 2, - (433 / 500)),
              (3, - (1 / 2), - (433 / 500)), (7, - 1, 0), (5, - (1 / 2), 433 / 500)]"
proof -
  have l: "length (events sample_file) = 2"
    by (simp add: events_sample_file)
  have r: "input_event_row sample_grid (events sample_file ! 1)
       = Inr [(1, 0, 0), (6, 1 / 2, 433 / 500), (2, 1, 0), (4, 1 / 2, - (433 / 500)),
              (3, - (1 / 2), - (433 / 500)), (7, - 1, 0), (5, - (1 / 2), 433 / 500)]"
    by (simp add: events_sample_file row_second_event)
  show ?thesis
    using data_sets_are_aligned [OF features_sample_file target_sample_file columns_sample_file]
      features_sample_file target_sample_file columns_sample_file l r
    by blast
qed

text \<open>The two methods return under these conditions on the file and the grid.\<close>

lemma data_sets_are_returned:
  assumes "events f \<noteq> []" and "read_failure f = None"
    and "mc_column f ''energy'' = Inr en" and "mc_column f ''absx'' = Inr xh"
    and "mc_column f ''absy'' = Inr yh"
    and "length en = length (events f)" and "length xh = length (events f)"
    and "length yh = length (events f)"
    and "\<forall>ev\<in>set (events f).
           \<forall>j\<in>set (adc_channel_order g
                     (circular_crown_logical_coordinates (column ev) (row ev) g)).
             0 \<le> j \<and> j < int (length (pha ev))"
    and "\<forall>ev\<in>set (events f). length (neighbors g (column ev) (row ev)) = n"
  shows "\<exists>F T. input_events_data g f = Inr F \<and> target_data g f = Inr T"
proof -
  have "\<forall>ev\<in>set (events f). \<exists>rw. input_event_row g ev = Inr rw"
    using assms(9) input_event_row_returns by blast
  from input_rows_returns [OF this] obtain rs where rs: "input_rows g (events f) = Inr rs"
    by blast
  note nth = input_rows_Inr [OF rs]
  have "length r = Suc n" if "r \<in> set rs" for r
  proof -
    from that obtain i where i: "i < length rs" "r = rs ! i"
      by (auto simp: in_set_conv_nth)
    then have "input_event_row g (events f ! i) = Inr r"
      using nth by simp
    from input_event_row_nth(1) [OF this] show ?thesis
      using assms(10) i nth by (simp add: crown_Cons)
  qed
  moreover have "rs \<noteq> []"
    using nth assms(1) by auto
  ultimately have "list_all (\<lambda>r. length r = length (hd rs)) rs"
    by (simp add: list_all_iff)
  then have "input_events_data g f = Inr rs"
    by (simp add: input_events_data_def rs assms(2) np_array_def)
  then show ?thesis
    using target_data_aligned [OF assms(1-8), of g] by blast
qed

text \<open>
  C9, as the specification states it, fails: \<open>target_data\<close> has no condition of its
  own for a file with no Monte Carlo column. What it signals there is the exception
  of the accessor of the file; and when the file service raises the same exception
  on a failed read, \<open>target_data\<close> signals the same for a file with no Monte Carlo
  column and for a file with the columns whose iteration fails.
\<close>

theorem missing_truth_is_not_told_apart:
  "mc_column no_truth_file ''energy'' = Inl ''ServiceError''
   \<and> mc_column no_truth_file ''absx'' = Inl ''ServiceError''
   \<and> mc_column no_truth_file ''absy'' = Inl ''ServiceError''
   \<and> mc_column unreadable_file ''energy'' = Inr [5900, 6400]
   \<and> read_failure unreadable_file = Some ''ServiceError''
   \<and> target_data sample_grid no_truth_file = Inl (Raised ''ServiceError'')
   \<and> target_data sample_grid unreadable_file = Inl (Raised ''ServiceError'')"
  by (simp add: target_data_def no_truth_file_def unreadable_file_def sample_columns_def)

text \<open>
  C9, amended. When the accessor of the file raises for the column \<open>energy\<close>,
  \<open>target_data\<close> raises that same exception, unchanged, whatever the grid and the
  events are: it adds no condition of its own, and what tells this failure from
  another is the exception of the file service alone.
\<close>

theorem missing_truth_is_propagated:
  assumes "mc_column f ''energy'' = Inl e"
  shows "target_data g f = Inl (Raised e)"
  using assms by (simp add: target_data_def)

theorem missing_truth_is_propagated_witness:
  "mc_column no_truth_file ''energy'' = Inl ''ServiceError''
   \<and> target_data sample_grid no_truth_file = Inl (Raised ''ServiceError'')"
  using missing_truth_is_propagated [of no_truth_file "''ServiceError''" sample_grid]
  by (simp add: no_truth_file_def)

end
